theory Spec2Isabelle
  imports Complex_Main
begin

section \<open>JavaScript values\<close>

text \<open>
  The SDK is TypeScript; at run time its values are JavaScript values. A \<open>number\<close> is an
  IEEE double: every finite double is a rational, and the comparisons of doubles are the
  comparisons of those rationals, so a finite number is kept as a \<open>rat\<close>, next to the three
  special values. Comparisons with \<open>NaN\<close> are false, as in the language. Addition is exact on
  finite values: the rounding of doubles is not part of the model, which is the language's
  addition wherever the exact sum is a double (in particular on integers below \<open>2 ^ 53\<close>).
  A string is a list of characters, one per UTF-16 code unit, so \<open>length\<close> is the
  language's \<open>.length\<close>.
\<close>

datatype number = Finite rat | NaN | PosInfinity | NegInfinity

fun num_le :: "number \<Rightarrow> number \<Rightarrow> bool" where
  "num_le NaN y = False"
| "num_le x NaN = False"
| "num_le (Finite a) (Finite b) = (a \<le> b)"
| "num_le NegInfinity y = True"
| "num_le x PosInfinity = True"
| "num_le PosInfinity y = False"
| "num_le x NegInfinity = False"

fun num_lt :: "number \<Rightarrow> number \<Rightarrow> bool" where
  "num_lt NaN y = False"
| "num_lt x NaN = False"
| "num_lt (Finite a) (Finite b) = (a < b)"
| "num_lt PosInfinity y = False"
| "num_lt x NegInfinity = False"
| "num_lt NegInfinity y = True"
| "num_lt x PosInfinity = True"

definition num_ge :: "number \<Rightarrow> number \<Rightarrow> bool" where
  "num_ge x y = num_le y x"

definition num_gt :: "number \<Rightarrow> number \<Rightarrow> bool" where
  "num_gt x y = num_lt y x"

fun num_add :: "number \<Rightarrow> number \<Rightarrow> number" where
  "num_add NaN y = NaN"
| "num_add x NaN = NaN"
| "num_add (Finite a) (Finite b) = Finite (a + b)"
| "num_add PosInfinity NegInfinity = NaN"
| "num_add NegInfinity PosInfinity = NaN"
| "num_add PosInfinity y = PosInfinity"
| "num_add NegInfinity y = NegInfinity"
| "num_add x PosInfinity = PosInfinity"
| "num_add x NegInfinity = NegInfinity"

text \<open>\<open>Math.max\<close> and \<open>Math.min\<close> of two arguments: \<open>NaN\<close> if either is.\<close>

fun Math_max :: "number \<Rightarrow> number \<Rightarrow> number" where
  "Math_max NaN y = NaN"
| "Math_max x NaN = NaN"
| "Math_max x y = (if num_le x y then y else x)"

fun Math_min :: "number \<Rightarrow> number \<Rightarrow> number" where
  "Math_min NaN y = NaN"
| "Math_min x NaN = NaN"
| "Math_min x y = (if num_le x y then x else y)"

datatype jsval =
    JUndefined
  | JNull
  | JBool bool
  | JNum number
  | JStr string
  | JArr "jsval list"
  | JObj "(string \<times> jsval) list"

text \<open>\<open>Boolean(v)\<close>, and the test of \<open>v ? a : b\<close>.\<close>

fun truthy :: "jsval \<Rightarrow> bool" where
  "truthy JUndefined = False"
| "truthy JNull = False"
| "truthy (JBool b) = b"
| "truthy (JNum (Finite r)) = (r \<noteq> 0)"
| "truthy (JNum NaN) = False"
| "truthy (JNum PosInfinity) = True"
| "truthy (JNum NegInfinity) = True"
| "truthy (JStr s) = (s \<noteq> [])"
| "truthy (JArr xs) = True"
| "truthy (JObj kvs) = True"

text \<open>\<open>s.startsWith(p)\<close>.\<close>

definition startsWith :: "string \<Rightarrow> string \<Rightarrow> bool" where
  "startsWith s p = (take (length p) s = p)"


section \<open>types/Reputation: the tier table and the named deltas\<close>

record ReputationTier =
  tier :: nat
  name :: string
  minScore :: number
  maxScore :: number
  maxLoanAmount :: number
  color :: string
  description :: string

text \<open>The five entries of the table \<open>REPUTATION_TIERS\<close>, in its order.\<close>

definition tier_NoCredit :: ReputationTier where
  "tier_NoCredit =
     \<lparr> tier = 0, name = ''No Credit'', minScore = Finite 0, maxScore = Finite 49,
       maxLoanAmount = Finite 0, color = ''#ef4444'',
       description = ''No lending access - build reputation first'' \<rparr>"

definition tier_Basic :: ReputationTier where
  "tier_Basic =
     \<lparr> tier = 1, name = ''Basic'', minScore = Finite 50, maxScore = Finite 59,
       maxLoanAmount = Finite (1 / 2), color = ''#f97316'',
       description = ''Small loans available - prove your reliability'' \<rparr>"

definition tier_Good :: ReputationTier where
  "tier_Good =
     \<lparr> tier = 2, name = ''Good'', minScore = Finite 60, maxScore = Finite 74,
       maxLoanAmount = Finite 2, color = ''#eab308'',
       description = ''Moderate loans available - good track record'' \<rparr>"

definition tier_Excellent :: ReputationTier where
  "tier_Excellent =
     \<lparr> tier = 3, name = ''Excellent'', minScore = Finite 75, maxScore = Finite 89,
       maxLoanAmount = Finite 5, color = ''#84cc16'',
       description = ''Large loans available - excellent reputation'' \<rparr>"

definition tier_Elite :: ReputationTier where
  "tier_Elite =
     \<lparr> tier = 4, name = ''Elite'', minScore = Finite 90, maxScore = Finite 100,
       maxLoanAmount = Finite 10, color = ''#22c55e'',
       description = ''Maximum loans available - elite status'' \<rparr>"

definition REPUTATION_TIERS :: "ReputationTier list" where
  "REPUTATION_TIERS = [tier_NoCredit, tier_Basic, tier_Good, tier_Excellent, tier_Elite]"

datatype delta_action =
    EARLY_PAYMENT | ON_TIME_PAYMENT | LATE_PAYMENT | DEFAULT
  | SUCCESSFUL_TRADE | FAILED_TRADE | STAKE_REWARD | GOVERNANCE_PARTICIPATION

fun REPUTATION_DELTAS :: "delta_action \<Rightarrow> number" where
  "REPUTATION_DELTAS EARLY_PAYMENT = Finite 12"
| "REPUTATION_DELTAS ON_TIME_PAYMENT = Finite 8"
| "REPUTATION_DELTAS LATE_PAYMENT = Finite (- 5)"
| "REPUTATION_DELTAS DEFAULT = Finite (- 25)"
| "REPUTATION_DELTAS SUCCESSFUL_TRADE = Finite 2"
| "REPUTATION_DELTAS FAILED_TRADE = Finite (- 5)"
| "REPUTATION_DELTAS STAKE_REWARD = Finite 1"
| "REPUTATION_DELTAS GOVERNANCE_PARTICIPATION = Finite 3"

text \<open>
  \<open>ReputationScore\<close>; its field \<open>tier\<close> is \<open>tier_of\<close> here, since \<open>tier\<close> is the number of
  a \<open>ReputationTier\<close>.
\<close>

record ReputationScore =
  score :: number
  tier_of :: ReputationTier
  lastUpdated :: int


section \<open>ReputationManager: the pure part\<close>

text \<open>The test of the loop in \<open>getTier\<close>: \<open>score >= tier.minScore && score <= tier.maxScore\<close>.\<close>

definition in_band :: "number \<Rightarrow> ReputationTier \<Rightarrow> bool" where
  "in_band s t = (num_ge s (minScore t) \<and> num_le s (maxScore t))"

text \<open>
  \<open>getTier\<close> returns the first tier of the table whose band holds the score, and the first
  entry of the table when the loop ends without one.
\<close>

fun getTier_loop :: "ReputationTier list \<Rightarrow> number \<Rightarrow> ReputationTier option" where
  "getTier_loop [] s = None"
| "getTier_loop (t # ts) s = (if in_band s t then Some t else getTier_loop ts s)"

definition getTier :: "number \<Rightarrow> ReputationTier" where
  "getTier s =
     (case getTier_loop REPUTATION_TIERS s of
        Some t \<Rightarrow> t
      | None \<Rightarrow> REPUTATION_TIERS ! 0)"

definition getMaxLoanAmount :: "number \<Rightarrow> number" where
  "getMaxLoanAmount s = maxLoanAmount (getTier s)"

text \<open>
  \<open>predictNewScore\<close>; \<open>now\<close> is the value of \<open>Date.now()\<close> at the call.
\<close>

definition predictNewScore :: "int \<Rightarrow> number \<Rightarrow> number \<Rightarrow> ReputationScore" where
  "predictNewScore now currentScore delta =
     (let newScore = Math_max (Finite 0) (Math_min (Finite 100) (num_add currentScore delta))
      in \<lparr> score = newScore, tier_of = getTier newScore, lastUpdated = now \<rparr>)"

text \<open>
  The ledger's rule in the words of the specification, on integers:
  \<open>clamp(x, lo, hi)\<close> is \<open>lo\<close> below the range, \<open>hi\<close> above it and \<open>x\<close> inside.
\<close>

definition clamp :: "int \<Rightarrow> int \<Rightarrow> int \<Rightarrow> int" where
  "clamp x lo hi = (if x < lo then lo else if hi < x then hi else x)"

text \<open>
  The tier table in the words of the specification (section 4.2): for an integer score, the
  number of its tier, the tier's name and its maximal loan amount; no tier outside [0,100].
\<close>

definition spec_tier :: "int \<Rightarrow> (nat \<times> string \<times> number) option" where
  "spec_tier s =
     (if 0 \<le> s \<and> s \<le> 49 then Some (0, ''No Credit'', Finite 0)
      else if 50 \<le> s \<and> s \<le> 59 then Some (1, ''Basic'', Finite (1 / 2))
      else if 60 \<le> s \<and> s \<le> 74 then Some (2, ''Good'', Finite 2)
      else if 75 \<le> s \<and> s \<le> 89 then Some (3, ''Excellent'', Finite 5)
      else if 90 \<le> s \<and> s \<le> 100 then Some (4, ''Elite'', Finite 10)
      else None)"


section \<open>Errors, the Stellar client and its calls\<close>

datatype ErrorCodes =
    NETWORK_ERROR | CONTRACT_ERROR | VALIDATION_ERROR
  | WALLET_ERROR | UNAUTHORIZED | INSUFFICIENT_REPUTATION

text \<open>
  A thrown value: a plain \<open>Error\<close> of the libraries, or the SDK's \<open>DACTPError\<close> with its
  code and the error it wraps. A function that can throw returns \<open>js_error + 'a\<close>, the error
  on the left.
\<close>

datatype js_error =
    is_Error: Error (message: string)
  | is_DACTPError: DACTPError (message: string) (code: ErrorCodes) (details: "js_error option")

record Transaction =
  toXDR :: string

record Contracts =
  agentManager :: string
  reputationManager :: string
  lendingDemo :: string
  xlmToken :: string

text \<open>
  \<open>StellarClient\<close> talks to the network. What the network answers is not the SDK's to
  decide, so the two methods the managers use are fields of the client: for a public key,
  a contract, a method and its arguments, \<open>buildContractTx\<close> gives the prepared
  transaction or the error it throws, and \<open>simulateCall\<close> the parsed return value or the
  error it throws.
\<close>

record StellarClient =
  contracts :: Contracts
  buildContractTx :: "string \<Rightarrow> string \<Rightarrow> string \<Rightarrow> jsval list \<Rightarrow> js_error + Transaction"
  simulateCall :: "string \<Rightarrow> string \<Rightarrow> jsval list \<Rightarrow> js_error + jsval"

text \<open>
  What a state-mutating method asks of the client, in order: a transaction to be built, or
  a signed transaction to be submitted (\<open>StellarClient.submitTx\<close>). A mutating method
  returns this list next to its result. Console output is not recorded.
\<close>

datatype client_call =
    BuildContractTx string string string "jsval list"
  | SubmitTx string

fun is_SubmitTx :: "client_call \<Rightarrow> bool" where
  "is_SubmitTx (SubmitTx x) = True"
| "is_SubmitTx (BuildContractTx pk cid m args) = False"

record TxOptions =
  signAndSend :: "bool option"
  secretKey :: "string option"
  fee :: "number option"

record TxResult =
  hash :: string
  success :: bool

text \<open>
  The parameter objects of types/Agent and types/Reputation. Their fields are prefixed
  (\<open>reg_\<close>, \<open>rev_\<close>, \<open>chk_\<close>, \<open>upd_\<close>), since several of them share field names; for
  the same reason the \<open>reason\<close> of an \<open>AuthorizationResult\<close> is \<open>auth_reason\<close>. Optional
  fields that these methods never set are left out of the result objects.
\<close>

record RegisterAgentParams =
  reg_owner :: string
  reg_agent :: string
  reg_scopes :: "string list"
  reg_maxAmount :: number

record RevokeAgentParams =
  rev_owner :: string
  rev_agent :: string

record AuthorizationCheck =
  chk_agent :: string
  chk_action :: string
  chk_amount :: number

record AuthorizationResult =
  authorized :: bool
  auth_reason :: "string option"

record UpdateScoreParams =
  upd_caller :: string
  upd_agent :: string
  upd_delta :: number

definition wallet_message :: string where
  "wallet_message =
     ''Wallet signing not implemented yet. Use signAndSend: false to get unsigned XDR.''"


section \<open>AgentManager\<close>

definition register ::
  "StellarClient \<Rightarrow> RegisterAgentParams \<Rightarrow> TxOptions \<Rightarrow> client_call list \<times> (js_error + TxResult)" where
  "register c params options =
     (let args = [JStr (reg_owner params), JStr (reg_agent params),
                  JArr (map JStr (reg_scopes params)), JNum (reg_maxAmount params)]
      in if signAndSend options = Some False then
           ([BuildContractTx (reg_owner params) (agentManager (contracts c)) ''register_agent'' args],
            case buildContractTx c (reg_owner params) (agentManager (contracts c))
                   ''register_agent'' args of
              Inr tx \<Rightarrow> Inr \<lparr> hash = toXDR tx, success = True \<rparr>
            | Inl error \<Rightarrow>
                Inl (DACTPError (''Agent registration failed: '' @ message error)
                       CONTRACT_ERROR (Some error)))
         else
           ([], Inl (DACTPError (''Agent registration failed: '' @ wallet_message)
                       CONTRACT_ERROR (Some (DACTPError wallet_message WALLET_ERROR None)))))"

definition revoke ::
  "StellarClient \<Rightarrow> RevokeAgentParams \<Rightarrow> TxOptions \<Rightarrow> client_call list \<times> (js_error + TxResult)" where
  "revoke c params options =
     (let args = [JStr (rev_owner params), JStr (rev_agent params)]
      in if signAndSend options = Some False then
           ([BuildContractTx (rev_owner params) (agentManager (contracts c)) ''revoke_agent'' args],
            case buildContractTx c (rev_owner params) (agentManager (contracts c))
                   ''revoke_agent'' args of
              Inr tx \<Rightarrow> Inr \<lparr> hash = toXDR tx, success = True \<rparr>
            | Inl error \<Rightarrow>
                Inl (DACTPError (''Agent revocation failed: '' @ message error)
                       CONTRACT_ERROR (Some error)))
         else
           ([], Inl (DACTPError (''Agent revocation failed: '' @ wallet_message)
                       CONTRACT_ERROR (Some (DACTPError wallet_message WALLET_ERROR None)))))"

definition isAuthorized :: "StellarClient \<Rightarrow> AuthorizationCheck \<Rightarrow> js_error + AuthorizationResult" where
  "isAuthorized c check =
     (case simulateCall c (agentManager (contracts c)) ''is_authorized''
             [JStr (chk_agent check), JStr (chk_action check), JNum (chk_amount check)] of
        Inr result \<Rightarrow>
          Inr \<lparr> authorized = truthy result,
                auth_reason = (if truthy result then None
                               else Some ''Agent not authorized or amount exceeds limit'') \<rparr>
      | Inl error \<Rightarrow>
          Inr \<lparr> authorized = False,
                auth_reason = Some (''Authorization check failed: '' @ message error) \<rparr>)"

definition getInfo :: "StellarClient \<Rightarrow> string \<Rightarrow> js_error + jsval" where
  "getInfo c agentAddress =
     (case simulateCall c (agentManager (contracts c)) ''get_agent_info'' [JStr agentAddress] of
        Inr result \<Rightarrow> Inr result
      | Inl error \<Rightarrow> Inr JNull)"


section \<open>ReputationManager: the calls\<close>

definition getScore :: "StellarClient \<Rightarrow> int \<Rightarrow> string \<Rightarrow> js_error + ReputationScore" where
  "getScore c now agentAddress =
     (case simulateCall c (reputationManager (contracts c)) ''get_score'' [JStr agentAddress] of
        Inr result \<Rightarrow>
          (let numericScore = (case result of JNum n \<Rightarrow> n | _ \<Rightarrow> Finite 50)
           in Inr \<lparr> score = numericScore, tier_of = getTier numericScore, lastUpdated = now \<rparr>)
      | Inl error \<Rightarrow>
          Inr \<lparr> score = Finite 50, tier_of = getTier (Finite 50), lastUpdated = now \<rparr>)"

definition updateScore ::
  "StellarClient \<Rightarrow> UpdateScoreParams \<Rightarrow> TxOptions \<Rightarrow> client_call list \<times> (js_error + TxResult)" where
  "updateScore c params options =
     (let args = [JStr (upd_caller params), JStr (upd_agent params), JNum (upd_delta params)]
      in if signAndSend options = Some False then
           ([BuildContractTx (upd_caller params) (reputationManager (contracts c))
               ''update_score'' args],
            case buildContractTx c (upd_caller params) (reputationManager (contracts c))
                   ''update_score'' args of
              Inr tx \<Rightarrow> Inr \<lparr> hash = toXDR tx, success = True \<rparr>
            | Inl error \<Rightarrow>
                Inl (DACTPError (''Reputation update failed: '' @ message error)
                       CONTRACT_ERROR (Some error)))
         else
           ([], Inl (DACTPError (''Reputation update failed: '' @ wallet_message)
                       CONTRACT_ERROR (Some (DACTPError wallet_message WALLET_ERROR None)))))"


section \<open>DACTP: the facade\<close>

definition updateReputation ::
  "StellarClient \<Rightarrow> string \<Rightarrow> string \<Rightarrow> number \<Rightarrow> TxOptions \<Rightarrow> client_call list \<times> (js_error + TxResult)" where
  "updateReputation c caller agent delta options =
     updateScore c \<lparr> upd_caller = caller, upd_agent = agent, upd_delta = delta \<rparr> options"

record ActionCheck =
  canPerform :: bool
  reason :: "string option"
  currentReputation :: "number option"
  maxAllowed :: "number option"

text \<open>
  \<open>canPerformAction\<close>. The text of a number inside a template literal is the language's
  \<open>Number.prototype.toString\<close>, which is not the SDK's code: it is the parameter
  \<open>str\<close>. \<open>now\<close> is the value of \<open>Date.now()\<close>. The body of the \<open>try\<close> is
  \<open>canPerformAction_try\<close>; an error it throws is turned into a result by the \<open>catch\<close>.
\<close>

definition canPerformAction_try ::
  "(number \<Rightarrow> string) \<Rightarrow> StellarClient \<Rightarrow> int \<Rightarrow> string \<Rightarrow> string \<Rightarrow> number \<Rightarrow> number
     \<Rightarrow> js_error + ActionCheck" where
  "canPerformAction_try str c now agent action amount minimumReputation =
     (case isAuthorized c \<lparr> chk_agent = agent, chk_action = action, chk_amount = amount \<rparr> of
        Inl error \<Rightarrow> Inl error
      | Inr authResult \<Rightarrow>
          if \<not> authorized authResult then
            Inr \<lparr> canPerform = False,
                  reason = Some (case auth_reason authResult of
                                   None \<Rightarrow> ''Not authorized''
                                 | Some r \<Rightarrow> if r = [] then ''Not authorized'' else r),
                  currentReputation = None, maxAllowed = None \<rparr>
          else
            (case getScore c now agent of
               Inl error \<Rightarrow> Inl error
             | Inr reputation \<Rightarrow>
                 if num_lt (score reputation) minimumReputation then
                   Inr \<lparr> canPerform = False,
                         reason = Some (''Insufficient reputation. Required: ''
                                        @ str minimumReputation @ '', Current: ''
                                        @ str (score reputation)),
                         currentReputation = Some (score reputation), maxAllowed = None \<rparr>
                 else
                   (let limit = getMaxLoanAmount (score reputation)
                    in if num_gt amount limit then
                         Inr \<lparr> canPerform = False,
                               reason = Some ''Amount exceeds reputation-based limit'',
                               currentReputation = Some (score reputation),
                               maxAllowed = Some limit \<rparr>
                       else
                         Inr \<lparr> canPerform = True, reason = None,
                               currentReputation = Some (score reputation),
                               maxAllowed = Some limit \<rparr>)))"

definition canPerformAction ::
  "(number \<Rightarrow> string) \<Rightarrow> StellarClient \<Rightarrow> int \<Rightarrow> string \<Rightarrow> string \<Rightarrow> number \<Rightarrow> number
     \<Rightarrow> js_error + ActionCheck" where
  "canPerformAction str c now agent action amount minimumReputation =
     (case canPerformAction_try str c now agent action amount minimumReputation of
        Inr r \<Rightarrow> Inr r
      | Inl error \<Rightarrow>
          Inr \<lparr> canPerform = False, reason = Some (''Check failed: '' @ message error),
                currentReputation = None, maxAllowed = None \<rparr>)"


text \<open>
  The two address checks. The parameter is typed \<open>string\<close>, and the methods test
  \<open>typeof address === 'string'\<close> themselves, so they take any value.
\<close>

definition isValidAgentAddress :: "jsval \<Rightarrow> bool" where
  "isValidAgentAddress address =
     (case address of
        JStr a \<Rightarrow> startsWith a ''G'' \<and> length a = 56
      | _ \<Rightarrow> False)"

definition isValidContractAddress :: "jsval \<Rightarrow> bool" where
  "isValidContractAddress address =
     (case address of
        JStr a \<Rightarrow> startsWith a ''C'' \<and> length a = 56
      | _ \<Rightarrow> False)"


section \<open>StellarLendIntegration\<close>

record BusinessChecks =
  passed :: bool
  checks_reason :: "string option"

definition performBusinessChecks :: "string \<Rightarrow> number \<Rightarrow> BusinessChecks" where
  "performBusinessChecks borrower amount =
     (if num_gt amount (Finite 1000)
      then \<lparr> passed = False, checks_reason = Some ''Amount exceeds protocol maximum'' \<rparr>
      else \<lparr> passed = True, checks_reason = None \<rparr>)"

record LoanDecision =
  approved :: bool
  loan_reason :: "string option"
  loan_maxAllowed :: "number option"
  interestRate :: "number option"

text \<open>
  \<open>processLoanRequest\<close>. The interest rate is floating-point arithmetic on the score
  (\<open>calculateInterestRate\<close>, applied to \<open>currentReputation\<close>, which the type allows to
  be undefined); it is the parameter \<open>rate\<close>, and nothing below depends on its value.
  \<open>durationDays\<close> is not used by the method.
\<close>

definition processLoanRequest_try ::
  "(number \<Rightarrow> string) \<Rightarrow> (number option \<Rightarrow> number) \<Rightarrow> StellarClient \<Rightarrow> int \<Rightarrow> string \<Rightarrow> number \<Rightarrow> number
     \<Rightarrow> js_error + LoanDecision" where
  "processLoanRequest_try str rate c now borrower amount durationDays =
     (case canPerformAction str c now borrower ''borrow'' amount (Finite 60) of
        Inl error \<Rightarrow> Inl error
      | Inr canBorrow \<Rightarrow>
          if \<not> canPerform canBorrow then
            Inr \<lparr> approved = False, loan_reason = reason canBorrow,
                  loan_maxAllowed = maxAllowed canBorrow, interestRate = None \<rparr>
          else
            (let reputation = currentReputation canBorrow;
                 businessChecks = performBusinessChecks borrower amount
             in if \<not> passed businessChecks then
                  Inr \<lparr> approved = False, loan_reason = checks_reason businessChecks,
                        loan_maxAllowed = None, interestRate = None \<rparr>
                else
                  Inr \<lparr> approved = True, loan_reason = None,
                        loan_maxAllowed = maxAllowed canBorrow,
                        interestRate = Some (rate reputation) \<rparr>))"

definition processLoanRequest ::
  "(number \<Rightarrow> string) \<Rightarrow> (number option \<Rightarrow> number) \<Rightarrow> StellarClient \<Rightarrow> int \<Rightarrow> string \<Rightarrow> number \<Rightarrow> number
     \<Rightarrow> js_error + LoanDecision" where
  "processLoanRequest str rate c now borrower amount durationDays =
     (case processLoanRequest_try str rate c now borrower amount durationDays of
        Inr r \<Rightarrow> Inr r
      | Inl error \<Rightarrow>
          Inr \<lparr> approved = False,
                loan_reason = Some (''Loan processing failed: '' @ message error),
                loan_maxAllowed = None, interestRate = None \<rparr>)"

record RepaymentResult =
  repayment_success :: bool
  reputationDelta :: number

text \<open>The choice of the delta at the head of \<open>processLoanRepayment\<close>.\<close>

definition repayment_delta :: "bool \<Rightarrow> bool \<Rightarrow> number" where
  "repayment_delta isEarlyPayment isLatePayment =
     (if isEarlyPayment then Finite 12
      else if isLatePayment then Finite (- 5)
      else Finite 8)"

definition processLoanRepayment ::
  "StellarClient \<Rightarrow> string \<Rightarrow> string \<Rightarrow> bool \<Rightarrow> bool \<Rightarrow> client_call list \<times> (js_error + RepaymentResult)" where
  "processLoanRepayment c borrower loanId isEarlyPayment isLatePayment =
     (let delta = repayment_delta isEarlyPayment isLatePayment;
          (calls, r) = updateReputation c ''LENDING_PROTOCOL_ADDRESS'' borrower delta
                         \<lparr> signAndSend = Some False, secretKey = None, fee = None \<rparr>
      in (calls,
          case r of
            Inr tx \<Rightarrow> Inr \<lparr> repayment_success = True, reputationDelta = delta \<rparr>
          | Inl error \<Rightarrow> Inr \<lparr> repayment_success = False, reputationDelta = Finite 0 \<rparr>))"

definition processLoanDefault ::
  "StellarClient \<Rightarrow> string \<Rightarrow> string \<Rightarrow> client_call list \<times> (js_error + unit)" where
  "processLoanDefault c borrower loanId =
     (let (calls, r) = updateReputation c ''LENDING_PROTOCOL_ADDRESS'' borrower (Finite (- 25))
                         \<lparr> signAndSend = Some False, secretKey = None, fee = None \<rparr>
      in (calls, case r of Inr tx \<Rightarrow> Inr () | Inl error \<Rightarrow> Inr ()))"

text \<open>
  The deltas that a list of client calls carries to the ledger: the third argument of each
  \<open>update_score\<close> transaction built.
\<close>

fun requested_deltas :: "client_call list \<Rightarrow> number list" where
  "requested_deltas [] = []"
| "requested_deltas (BuildContractTx pk cid m [a, b, JNum d] # cs) =
     (if m = ''update_score'' then d # requested_deltas cs else requested_deltas cs)"
| "requested_deltas (x # cs) = requested_deltas cs"

text \<open>
  A repayment result \<open>res\<close> carries the delta \<open>d\<close>: the one call made asks for the
  \<open>update_score\<close> transaction of \<open>d\<close> for the borrower, and the result reports success
  with \<open>d\<close> when that transaction was built, and failure with 0 when building threw.
\<close>

definition carries_delta ::
  "StellarClient \<Rightarrow> string \<Rightarrow> client_call list \<times> (js_error + RepaymentResult) \<Rightarrow> number \<Rightarrow> bool" where
  "carries_delta c borrower res d =
     (fst res = [BuildContractTx ''LENDING_PROTOCOL_ADDRESS'' (reputationManager (contracts c))
                   ''update_score''
                   [JStr ''LENDING_PROTOCOL_ADDRESS'', JStr borrower, JNum d]]
      \<and> snd res =
          Inr (case buildContractTx c ''LENDING_PROTOCOL_ADDRESS'' (reputationManager (contracts c))
                      ''update_score''
                      [JStr ''LENDING_PROTOCOL_ADDRESS'', JStr borrower, JNum d] of
                 Inr tx \<Rightarrow> \<lparr> repayment_success = True, reputationDelta = d \<rparr>
               | Inl e \<Rightarrow> \<lparr> repayment_success = False, reputationDelta = Finite 0 \<rparr>))"


section \<open>Repayment timing and the agent registry, from the specification\<close>

text \<open>
  Modelled from the spec: the loan contract's classification of a repayment by its time
  (section 4.3, \<open>repay_loan\<close>, step 3) is not among the sources; the SDK receives its outcome
  as the two flags of \<open>processLoanRepayment\<close>. Times are seconds, as ledger timestamps are.
\<close>

definition twelve_hours :: int where
  "twelve_hours = 12 * 3600"

datatype timing = Early | OnTime | Late | PastGrace

definition classify :: "int \<Rightarrow> int \<Rightarrow> int \<Rightarrow> timing" where
  "classify now due_at grace =
     (if now \<le> due_at - twelve_hours then Early
      else if now \<le> due_at then OnTime
      else if now \<le> due_at + grace then Late
      else PastGrace)"

text \<open>
  Modelled from the spec: the agent registry contract (sections 3 and 4.1:
  \<open>register_agent\<close>, \<open>revoke_agent\<close>, \<open>is_authorized\<close>) is not among the sources, which hold
  only the SDK methods that build its transactions and the declaration of \<open>AgentInfo\<close>.
  An operation names the identity that signed it (\<open>caller\<close>) first. A record is
  created or overwritten by its owner; \<open>revoked\<close> is the one-way flag of section 3, so
  overwriting a record replaces its scopes and its limit and keeps the flag. The errors
  are the error kinds of section 7.
\<close>

record agent_record =
  owner :: string
  scopes :: "string set"
  max_amount :: nat
  revoked :: bool

type_synonym registry = "string \<rightharpoonup> agent_record"

datatype error_kind =
    Unauthorized | NotRegistered | Revoked | ScopeDenied | AmountExceedsLimit
  | InsufficientReputation | InsufficientLiquidity | LoanAlreadyActive | LoanNotFound
  | AlreadyRepaid | NotYetOverdue | PenaltyAlreadyApplied | CallerNotApproved
  | AlreadyInitialized

definition register_agent ::
  "string \<Rightarrow> string \<Rightarrow> string \<Rightarrow> string set \<Rightarrow> nat \<Rightarrow> registry \<Rightarrow> error_kind + registry" where
  "register_agent caller own agent scs mx reg =
     (if caller \<noteq> own then Inl Unauthorized
      else case reg agent of
             None \<Rightarrow>
               Inr (reg(agent \<mapsto> \<lparr> owner = own, scopes = scs, max_amount = mx, revoked = False \<rparr>))
           | Some r \<Rightarrow>
               if owner r \<noteq> own then Inl Unauthorized
               else Inr (reg(agent \<mapsto> r\<lparr> scopes := scs, max_amount := mx \<rparr>)))"

definition revoke_agent ::
  "string \<Rightarrow> string \<Rightarrow> string \<Rightarrow> registry \<Rightarrow> error_kind + registry" where
  "revoke_agent caller own agent reg =
     (if caller \<noteq> own then Inl Unauthorized
      else case reg agent of
             None \<Rightarrow> Inl NotRegistered
           | Some r \<Rightarrow>
               if owner r \<noteq> own then Inl Unauthorized
               else Inr (reg(agent \<mapsto> r\<lparr> revoked := True \<rparr>)))"

definition is_authorized :: "registry \<Rightarrow> string \<Rightarrow> string \<Rightarrow> nat \<Rightarrow> bool" where
  "is_authorized reg agent action amount =
     (case reg agent of
        None \<Rightarrow> False
      | Some r \<Rightarrow> \<not> revoked r \<and> action \<in> scopes r \<and> amount \<le> max_amount r)"

text \<open>
  The operations that run against the registry: its two mutators, and \<open>Elsewhere\<close> for any
  operation of the ledger or the loan engine, which hold the registry by a read-only
  reference (section 3) and leave it as it is.
\<close>

datatype registry_op =
    Register string string string "string set" nat
  | Revoke string string string
  | Elsewhere

fun apply_op :: "registry \<Rightarrow> registry_op \<Rightarrow> error_kind + registry" where
  "apply_op reg (Register caller own agent scs mx) = register_agent caller own agent scs mx reg"
| "apply_op reg (Revoke caller own agent) = revoke_agent caller own agent reg"
| "apply_op reg Elsewhere = Inr reg"

text \<open>An operation applies in full or aborts and leaves the registry as it was.\<close>

definition step :: "registry \<Rightarrow> registry_op \<Rightarrow> registry" where
  "step reg op = (case apply_op reg op of Inl e \<Rightarrow> reg | Inr reg' \<Rightarrow> reg')"

definition run :: "registry \<Rightarrow> registry_op list \<Rightarrow> registry" where
  "run reg ops = foldl step reg ops"


section \<open>Concrete clients and a registry\<close>

text \<open>The contract addresses of the futurenet entry of \<open>NETWORK_CONFIGS\<close>.\<close>

definition futurenet_contracts :: Contracts where
  "futurenet_contracts =
     \<lparr> agentManager = ''CD4L232BN5LS537F23LF4GAL53I6GV6JDKYQ73B6HE4YY6S6OZR3MS4R'',
       reputationManager = ''CDWF4BNN2GTUHDKRBPSUA7K6NTIS75YYVHBSFFFDGWPWU635GZY6PHEN'',
       lendingDemo = ''CD4ZOPXBNM7NV5FVY2L2ZW4TKLDC4B4CKHE3II5VCA743CPKFMH3N4WM'',
       xlmToken = ''CB64D3G7SM2RTH6JSGG34DDTFTQ5CFDKVDZJZSODMCX4NJ2HV2KN7OHT'' \<rparr>"

text \<open>
  A client whose network knows no account and answers no simulation: \<open>buildContractTx\<close>
  throws the error it throws for an unfunded account, \<open>simulateCall\<close> the error it throws
  on every failure.
\<close>

definition offline_client :: StellarClient where
  "offline_client =
     \<lparr> contracts = futurenet_contracts,
       buildContractTx = (\<lambda>publicKey contractId method args.
          Inl (DACTPError (''Account not found: '' @ publicKey @ ''. Fund this account first.'')
                 WALLET_ERROR (Some (Error ''Account not found'')))),
       simulateCall = (\<lambda>contractId method args.
          Inl (DACTPError ''Contract simulation failed'' CONTRACT_ERROR
                 (Some (Error ''fetch failed'')))) \<rparr>"

text \<open>
  A client whose network builds every transaction and answers \<open>is_authorized\<close> and
  \<open>get_score\<close> with the two given values, and every other call with no data.
\<close>

definition answering_client :: "jsval \<Rightarrow> jsval \<Rightarrow> StellarClient" where
  "answering_client auth_answer score_answer =
     \<lparr> contracts = futurenet_contracts,
       buildContractTx = (\<lambda>publicKey contractId method args. Inr \<lparr> toXDR = ''AAAAAgAAAAA='' \<rparr>),
       simulateCall = (\<lambda>contractId method args.
          if method = ''is_authorized'' then Inr auth_answer
          else if method = ''get_score'' then Inr score_answer
          else Inr JNull) \<rparr>"

text \<open>
  The decimal text of a number that is a natural number, for use as \<open>str\<close> in examples;
  other numbers are not rendered.
\<close>

function decimal :: "nat \<Rightarrow> string" where
  "decimal n =
     (if n < 10 then [''0123456789'' ! n]
      else decimal (n div 10) @ [''0123456789'' ! (n mod 10)])"
  by pat_completeness auto
termination
  by (relation "measure (\<lambda>n. n)") auto

definition natural_text :: "number \<Rightarrow> string" where
  "natural_text x =
     (case x of
        Finite r \<Rightarrow> if 0 \<le> r \<and> r = of_int \<lfloor>r\<rfloor> then decimal (nat \<lfloor>r\<rfloor>) else ''?''
      | _ \<Rightarrow> ''?'')"

text \<open>
  The registry after the registration of section 8 of the specification:
  \<open>register_agent(owner, a, {"borrow", "repay"}, 1000)\<close>.
\<close>

definition demo_registry :: registry where
  "demo_registry =
     run Map.empty [Register ''owner'' ''owner'' ''agent'' {''borrow'', ''repay''} 1000]"

definition agent_G :: string where
  "agent_G = ''GAAAAAAAAAAAAAAAAAAAAAAAAAAAAAAAAAAAAAAAAAAAAAAAAAAAAWHF''"

definition borrower_G :: string where
  "borrower_G = ''GBJNTJ56V23KNAG4LBPKLQRVC4GSJ75ICBFQYNI4TQBHQNAYZK4SE7ON''"


section \<open>Properties\<close>

lemma Math_min_Finite: "Math_min (Finite a) (Finite b) = Finite (min a b)"
  by (simp add: min_def)

lemma Math_max_Finite: "Math_max (Finite a) (Finite b) = Finite (max a b)"
  by (simp add: max_def)

lemma clamp_of_int:
  "max 0 (min 100 (rat_of_int x)) = rat_of_int (clamp x 0 100)"
  by (simp add: clamp_def max_def min_def)

lemma clamp_range: "lo \<le> hi \<Longrightarrow> lo \<le> clamp x lo hi \<and> clamp x lo hi \<le> hi"
  by (simp add: clamp_def)

text \<open>
  C1. For every current score in [0,100] and every integer delta, the score that
  \<open>predictNewScore\<close> computes is \<open>clamp(old_score + delta, 0, 100)\<close>, and it lies in the
  closed range [0,100].
\<close>

theorem predictNewScore_clamp:
  assumes "0 \<le> s" and "s \<le> 100"
  shows "score (predictNewScore now (Finite (of_int s)) (Finite (of_int d)))
           = Finite (of_int (clamp (s + d) 0 100))
         \<and> num_le (Finite 0) (score (predictNewScore now (Finite (of_int s)) (Finite (of_int d))))
         \<and> num_le (score (predictNewScore now (Finite (of_int s)) (Finite (of_int d)))) (Finite 100)"
proof -
  have eq: "score (predictNewScore now (Finite (of_int s)) (Finite (of_int d)))
          = Finite (of_int (clamp (s + d) 0 100))"
    unfolding predictNewScore_def Let_def
    by (simp add: Math_min_Finite Math_max_Finite clamp_of_int [symmetric])
  have "0 \<le> clamp (s + d) 0 100 \<and> clamp (s + d) 0 100 \<le> 100"
    by (rule clamp_range) simp
  with eq show ?thesis by simp
qed

theorem predictNewScore_clamp_witness:
  "(0::int) \<le> 95 \<and> (95::int) \<le> 100
   \<and> score (predictNewScore 0 (Finite 95) (Finite 12)) = Finite 100
   \<and> score (predictNewScore 0 (Finite 3) (Finite (- 25))) = Finite 0"
proof -
  have a: "score (predictNewScore 0 (Finite (of_int 95)) (Finite (of_int 12)))
             = Finite (of_int (clamp (95 + 12) 0 100))"
    using predictNewScore_clamp [of 95 0 12] by simp
  have b: "score (predictNewScore 0 (Finite (of_int 3)) (Finite (of_int (- 25))))
             = Finite (of_int (clamp (3 + (- 25)) 0 100))"
    using predictNewScore_clamp [of 3 0 "- 25"] by simp
  from a b show ?thesis by (simp add: clamp_def)
qed

lemma band_NoCredit: "in_band (Finite r) tier_NoCredit = (0 \<le> r \<and> r \<le> 49)"
  by (simp add: in_band_def num_ge_def tier_NoCredit_def)
lemma band_Basic: "in_band (Finite r) tier_Basic = (50 \<le> r \<and> r \<le> 59)"
  by (simp add: in_band_def num_ge_def tier_Basic_def)
lemma band_Good: "in_band (Finite r) tier_Good = (60 \<le> r \<and> r \<le> 74)"
  by (simp add: in_band_def num_ge_def tier_Good_def)
lemma band_Excellent: "in_band (Finite r) tier_Excellent = (75 \<le> r \<and> r \<le> 89)"
  by (simp add: in_band_def num_ge_def tier_Excellent_def)
lemma band_Elite: "in_band (Finite r) tier_Elite = (90 \<le> r \<and> r \<le> 100)"
  by (simp add: in_band_def num_ge_def tier_Elite_def)

lemmas bands = band_NoCredit band_Basic band_Good band_Excellent band_Elite

lemma getTier_Finite:
  "getTier (Finite r) =
     (if 0 \<le> r \<and> r \<le> 49 then tier_NoCredit
      else if 50 \<le> r \<and> r \<le> 59 then tier_Basic
      else if 60 \<le> r \<and> r \<le> 74 then tier_Good
      else if 75 \<le> r \<and> r \<le> 89 then tier_Excellent
      else if 90 \<le> r \<and> r \<le> 100 then tier_Elite
      else tier_NoCredit)"
  by (simp add: getTier_def REPUTATION_TIERS_def bands)

lemma tier_fields:
  "tier tier_NoCredit = 0" "tier tier_Basic = 1" "tier tier_Good = 2"
  "tier tier_Excellent = 3" "tier tier_Elite = 4"
  by (simp_all add: tier_NoCredit_def tier_Basic_def tier_Good_def tier_Excellent_def tier_Elite_def)

lemma name_fields:
  "name tier_NoCredit = ''No Credit''" "name tier_Basic = ''Basic''" "name tier_Good = ''Good''"
  "name tier_Excellent = ''Excellent''" "name tier_Elite = ''Elite''"
  by (simp_all add: tier_NoCredit_def tier_Basic_def tier_Good_def tier_Excellent_def tier_Elite_def)

lemma maxLoanAmount_fields:
  "maxLoanAmount tier_NoCredit = Finite 0" "maxLoanAmount tier_Basic = Finite (1 / 2)"
  "maxLoanAmount tier_Good = Finite 2" "maxLoanAmount tier_Excellent = Finite 5"
  "maxLoanAmount tier_Elite = Finite 10"
  by (simp_all add: tier_NoCredit_def tier_Basic_def tier_Good_def tier_Excellent_def tier_Elite_def)

lemma bands_special:
  "\<not> in_band NaN t"
  "t \<in> set REPUTATION_TIERS \<Longrightarrow> \<not> in_band PosInfinity t"
  "t \<in> set REPUTATION_TIERS \<Longrightarrow> \<not> in_band NegInfinity t"
proof -
  show "\<not> in_band NaN t"
    by (cases "minScore t") (simp_all add: in_band_def num_ge_def)
  show "t \<in> set REPUTATION_TIERS \<Longrightarrow> \<not> in_band PosInfinity t"
    by (auto simp add: REPUTATION_TIERS_def in_band_def num_ge_def tier_NoCredit_def
          tier_Basic_def tier_Good_def tier_Excellent_def tier_Elite_def)
  show "t \<in> set REPUTATION_TIERS \<Longrightarrow> \<not> in_band NegInfinity t"
    by (auto simp add: REPUTATION_TIERS_def in_band_def num_ge_def tier_NoCredit_def
          tier_Basic_def tier_Good_def tier_Excellent_def tier_Elite_def)
qed

lemma getTier_in_table: "getTier x \<in> set REPUTATION_TIERS"
  by (simp add: getTier_def REPUTATION_TIERS_def)

lemma getTier_loop_Some: "getTier_loop ts x = Some t \<Longrightarrow> t \<in> set ts \<and> in_band x t"
  by (induction ts) (auto split: if_splits)

lemma getTier_loop_None: "getTier_loop ts x = None \<longleftrightarrow> (\<forall>t \<in> set ts. \<not> in_band x t)"
  by (induction ts) auto

lemma unique_band:
  assumes "0 \<le> s" and "s \<le> 100"
  shows "\<exists>!t. t \<in> set REPUTATION_TIERS \<and> in_band (Finite (of_int s)) t"
proof -
  consider "s \<le> 49" | "50 \<le> s \<and> s \<le> 59" | "60 \<le> s \<and> s \<le> 74" | "75 \<le> s \<and> s \<le> 89" | "90 \<le> s"
    by linarith
  then show ?thesis
  proof cases
    case 1
    with assms show ?thesis
      by (intro ex1I [of _ tier_NoCredit]) (auto simp add: REPUTATION_TIERS_def bands)
  next
    case 2
    then show ?thesis
      by (intro ex1I [of _ tier_Basic]) (auto simp add: REPUTATION_TIERS_def bands)
  next
    case 3
    then show ?thesis
      by (intro ex1I [of _ tier_Good]) (auto simp add: REPUTATION_TIERS_def bands)
  next
    case 4
    then show ?thesis
      by (intro ex1I [of _ tier_Excellent]) (auto simp add: REPUTATION_TIERS_def bands)
  next
    case 5
    with assms show ?thesis
      by (intro ex1I [of _ tier_Elite]) (auto simp add: REPUTATION_TIERS_def bands)
  qed
qed

text \<open>
  C2. For every integer score in [0,100] exactly one band of the table holds it, \<open>getTier\<close>
  returns that band, and the band's number, name and maximal loan amount (which is what
  \<open>getMaxLoanAmount\<close> returns) are those the specification tabulates: 0-49 tier 0
  (No Credit) with 0, 50-59 tier 1 (Basic) with 0.5, 60-74 tier 2 (Good) with 2.0,
  75-89 tier 3 (Excellent) with 5.0, 90-100 tier 4 (Elite) with 10.0.
\<close>

theorem getTier_bands:
  assumes "0 \<le> s" and "s \<le> 100"
  shows "(\<exists>!t. t \<in> set REPUTATION_TIERS \<and> in_band (Finite (of_int s)) t)
         \<and> getTier (Finite (of_int s)) \<in> set REPUTATION_TIERS
         \<and> in_band (Finite (of_int s)) (getTier (Finite (of_int s)))
         \<and> spec_tier s = Some (tier (getTier (Finite (of_int s))),
                               name (getTier (Finite (of_int s))),
                               getMaxLoanAmount (Finite (of_int s)))"
proof -
  consider "s \<le> 49" | "50 \<le> s \<and> s \<le> 59" | "60 \<le> s \<and> s \<le> 74" | "75 \<le> s \<and> s \<le> 89" | "90 \<le> s"
    by linarith
  then have "in_band (Finite (of_int s)) (getTier (Finite (of_int s)))
         \<and> spec_tier s = Some (tier (getTier (Finite (of_int s))),
                               name (getTier (Finite (of_int s))),
                               getMaxLoanAmount (Finite (of_int s)))"
    using assms
    by cases
      (simp_all add: getTier_Finite bands spec_tier_def getMaxLoanAmount_def
         tier_fields name_fields maxLoanAmount_fields)
  with unique_band [OF assms] getTier_in_table show ?thesis by blast
qed

theorem getTier_bands_witness:
  "(0::int) \<le> 73 \<and> (73::int) \<le> 100
   \<and> tier (getTier (Finite 73)) = 2 \<and> name (getTier (Finite 73)) = ''Good''
   \<and> getMaxLoanAmount (Finite 73) = Finite 2 \<and> in_band (Finite 73) (getTier (Finite 73))"
  using getTier_bands [of 73] by (simp add: spec_tier_def)

lemma no_band_Finite:
  "(\<forall>t \<in> set REPUTATION_TIERS. \<not> in_band (Finite r) t) \<longleftrightarrow>
     (r < 0 \<or> 100 < r \<or> (49 < r \<and> r < 50) \<or> (59 < r \<and> r < 60)
      \<or> (74 < r \<and> r < 75) \<or> (89 < r \<and> r < 90))"
proof -
  have eq: "(\<forall>t \<in> set REPUTATION_TIERS. \<not> in_band (Finite r) t) \<longleftrightarrow>
     \<not> (0 \<le> r \<and> r \<le> 49) \<and> \<not> (50 \<le> r \<and> r \<le> 59) \<and> \<not> (60 \<le> r \<and> r \<le> 74)
     \<and> \<not> (75 \<le> r \<and> r \<le> 89) \<and> \<not> (90 \<le> r \<and> r \<le> 100)"
    by (simp add: REPUTATION_TIERS_def bands)
  consider "r < 0" | "0 \<le> r \<and> r \<le> 49" | "49 < r \<and> r < 50" | "50 \<le> r \<and> r \<le> 59"
    | "59 < r \<and> r < 60" | "60 \<le> r \<and> r \<le> 74" | "74 < r \<and> r < 75" | "75 \<le> r \<and> r \<le> 89"
    | "89 < r \<and> r < 90" | "90 \<le> r \<and> r \<le> 100" | "100 < r"
    by linarith
  then show ?thesis
    unfolding eq by cases simp_all
qed

text \<open>
  C9. \<open>getTier\<close> is total: it returns an entry of the table for every number. For a score
  that no band holds it returns the first entry, tier 0 (No Credit) with maximal loan
  amount 0. These scores are the negative ones, those above 100 (so a score above 100 is
  not Elite), those strictly between two adjacent bands such as 49.5, and the values
  \<open>NaN\<close> and the two infinities.
\<close>

theorem getTier_fallthrough:
  "getTier x \<in> set REPUTATION_TIERS
   \<and> ((\<forall>t \<in> set REPUTATION_TIERS. \<not> in_band x t) \<longrightarrow>
        getTier x = REPUTATION_TIERS ! 0 \<and> tier (getTier x) = 0
        \<and> name (getTier x) = ''No Credit'' \<and> getMaxLoanAmount x = Finite 0)
   \<and> ((\<forall>t \<in> set REPUTATION_TIERS. \<not> in_band x t) \<longleftrightarrow>
        (case x of
           Finite r \<Rightarrow> r < 0 \<or> 100 < r \<or> (49 < r \<and> r < 50) \<or> (59 < r \<and> r < 60)
                        \<or> (74 < r \<and> r < 75) \<or> (89 < r \<and> r < 90)
         | _ \<Rightarrow> True))"
proof -
  have c: "REPUTATION_TIERS ! 0 = tier_NoCredit"
    by (simp add: REPUTATION_TIERS_def)
  have a: "getTier x = tier_NoCredit" if "\<forall>t \<in> set REPUTATION_TIERS. \<not> in_band x t"
  proof -
    from that have "getTier_loop REPUTATION_TIERS x = None"
      by (simp only: getTier_loop_None)
    then show ?thesis by (simp add: getTier_def c)
  qed
  have b: "(\<forall>t \<in> set REPUTATION_TIERS. \<not> in_band x t) \<longleftrightarrow>
        (case x of
           Finite r \<Rightarrow> r < 0 \<or> 100 < r \<or> (49 < r \<and> r < 50) \<or> (59 < r \<and> r < 60)
                        \<or> (74 < r \<and> r < 75) \<or> (89 < r \<and> r < 90)
         | _ \<Rightarrow> True)"
  proof (cases x)
    case (Finite r)
    then show ?thesis by (simp add: no_band_Finite)
  qed (simp_all add: bands_special)
  have d: "getTier x = tier_NoCredit \<Longrightarrow>
        getTier x = REPUTATION_TIERS ! 0 \<and> tier (getTier x) = 0
        \<and> name (getTier x) = ''No Credit'' \<and> getMaxLoanAmount x = Finite 0"
    by (simp add: c getMaxLoanAmount_def tier_fields name_fields maxLoanAmount_fields)
  from a d have "(\<forall>t \<in> set REPUTATION_TIERS. \<not> in_band x t) \<longrightarrow>
        getTier x = REPUTATION_TIERS ! 0 \<and> tier (getTier x) = 0
        \<and> name (getTier x) = ''No Credit'' \<and> getMaxLoanAmount x = Finite 0"
    by blast
  with b getTier_in_table [of x] show ?thesis
    by (intro conjI)
qed

theorem getTier_fallthrough_witness:
  "getTier (Finite 101) = REPUTATION_TIERS ! 0 \<and> getMaxLoanAmount (Finite 101) = Finite 0
   \<and> tier (getTier (Finite (- 1))) = 0
   \<and> name (getTier (Finite (99 / 2))) = ''No Credit''
   \<and> getMaxLoanAmount NaN = Finite 0"
proof -
  have "getTier (Finite 101) = REPUTATION_TIERS ! 0 \<and> getMaxLoanAmount (Finite 101) = Finite 0"
    using getTier_fallthrough [of "Finite 101"] by auto
  moreover have "tier (getTier (Finite (- 1))) = 0"
    using getTier_fallthrough [of "Finite (- 1)"] by auto
  moreover have "name (getTier (Finite (99 / 2))) = ''No Credit''"
    using getTier_fallthrough [of "Finite (99 / 2)"] by auto
  moreover have "getMaxLoanAmount NaN = Finite 0"
    using getTier_fallthrough [of NaN] by auto
  ultimately show ?thesis by blast
qed

lemma startsWith_single: "startsWith s [c] \<longleftrightarrow> s \<noteq> [] \<and> hd s = c"
  by (cases s) (simp_all add: startsWith_def)

text \<open>
  C10. Address validation is syntactic: \<open>isValidAgentAddress\<close> holds exactly of the strings
  of length 56 whose first character is G, and \<open>isValidContractAddress\<close> exactly of the
  strings of length 56 whose first character is C. Nothing else about the characters is
  looked at.
\<close>

theorem address_validation_syntactic:
  "(isValidAgentAddress v \<longleftrightarrow> (\<exists>s. v = JStr s \<and> length s = 56 \<and> hd s = CHR ''G''))
   \<and> (isValidContractAddress v \<longleftrightarrow> (\<exists>s. v = JStr s \<and> length s = 56 \<and> hd s = CHR ''C''))"
  by (cases v) (auto simp add: isValidAgentAddress_def isValidContractAddress_def startsWith_single)

theorem address_validation_syntactic_witness:
  "isValidAgentAddress (JStr ''GBJNTJ56V23KNAG4LBPKLQRVC4GSJ75ICBFQYNI4TQBHQNAYZK4SE7ON'')
   \<and> isValidAgentAddress (JStr (CHR ''G'' # replicate 55 (CHR ''!'')))
   \<and> isValidContractAddress (JStr (CHR ''C'' # replicate 55 (CHR '' '')))
   \<and> \<not> isValidAgentAddress (JStr ''G'')
   \<and> \<not> isValidAgentAddress (JNum (Finite 56))"
  using address_validation_syntactic [of "JStr ''GBJNTJ56V23KNAG4LBPKLQRVC4GSJ75ICBFQYNI4TQBHQNAYZK4SE7ON''"]
    address_validation_syntactic [of "JStr (CHR ''G'' # replicate 55 (CHR ''!''))"]
    address_validation_syntactic [of "JStr (CHR ''C'' # replicate 55 (CHR '' ''))"]
    address_validation_syntactic [of "JStr ''G''"]
    address_validation_syntactic [of "JNum (Finite 56)"]
  by simp

text \<open>
  C6. The read-only queries never throw: for every client, whatever its network answers,
  \<open>isAuthorized\<close>, \<open>getScore\<close> and \<open>getInfo\<close> return a value. When the simulated call
  throws, or returns no data (\<open>null\<close>), the value is the default: not authorized, score 50
  (with its tier, Basic), and \<open>null\<close>. \<open>getScore\<close> also returns score 50 whenever the
  call's result is not a number.
\<close>

theorem read_only_queries_never_fail:
  "(\<exists>r. isAuthorized c check = Inr r
        \<and> (isl (simulateCall c (agentManager (contracts c)) ''is_authorized''
                  [JStr (chk_agent check), JStr (chk_action check), JNum (chk_amount check)])
             \<longrightarrow> \<not> authorized r)
        \<and> (simulateCall c (agentManager (contracts c)) ''is_authorized''
                  [JStr (chk_agent check), JStr (chk_action check), JNum (chk_amount check)]
             = Inr JNull \<longrightarrow> \<not> authorized r))
   \<and> (\<exists>r. getScore c now a = Inr r
        \<and> ((\<forall>n. simulateCall c (reputationManager (contracts c)) ''get_score'' [JStr a]
                    \<noteq> Inr (JNum n))
             \<longrightarrow> score r = Finite 50 \<and> tier_of r = tier_Basic))
   \<and> (\<exists>v. getInfo c a = Inr v
        \<and> (isl (simulateCall c (agentManager (contracts c)) ''get_agent_info'' [JStr a])
             \<or> simulateCall c (agentManager (contracts c)) ''get_agent_info'' [JStr a] = Inr JNull
             \<longrightarrow> v = JNull))"
proof (intro conjI)
  show "\<exists>r. isAuthorized c check = Inr r
        \<and> (isl (simulateCall c (agentManager (contracts c)) ''is_authorized''
                  [JStr (chk_agent check), JStr (chk_action check), JNum (chk_amount check)])
             \<longrightarrow> \<not> authorized r)
        \<and> (simulateCall c (agentManager (contracts c)) ''is_authorized''
                  [JStr (chk_agent check), JStr (chk_action check), JNum (chk_amount check)]
             = Inr JNull \<longrightarrow> \<not> authorized r)"
    by (simp add: isAuthorized_def split: sum.split)
  have t50: "getTier (Finite 50) = tier_Basic"
    by (simp add: getTier_Finite)
  show "\<exists>r. getScore c now a = Inr r
        \<and> ((\<forall>n. simulateCall c (reputationManager (contracts c)) ''get_score'' [JStr a]
                    \<noteq> Inr (JNum n))
             \<longrightarrow> score r = Finite 50 \<and> tier_of r = tier_Basic)"
    by (simp add: getScore_def t50 split: sum.split jsval.split)
  show "\<exists>v. getInfo c a = Inr v
        \<and> (isl (simulateCall c (agentManager (contracts c)) ''get_agent_info'' [JStr a])
             \<or> simulateCall c (agentManager (contracts c)) ''get_agent_info'' [JStr a] = Inr JNull
             \<longrightarrow> v = JNull)"
    by (simp add: getInfo_def split: sum.split)
qed



theorem read_only_queries_never_fail_witness:
  "(\<exists>r. isAuthorized offline_client
           \<lparr> chk_agent = borrower_G, chk_action = ''borrow'', chk_amount = Finite 500 \<rparr> = Inr r
        \<and> \<not> authorized r)
   \<and> (\<exists>r. getScore offline_client 0 borrower_G = Inr r
        \<and> score r = Finite 50 \<and> tier_of r = tier_Basic)
   \<and> (\<exists>v. getInfo offline_client borrower_G = Inr v \<and> v = JNull)
   \<and> (\<exists>r. getScore (answering_client JNull (JStr ''high'')) 0 borrower_G = Inr r
        \<and> score r = Finite 50 \<and> tier_of r = tier_Basic)
   \<and> (\<exists>v. getInfo (answering_client JNull JNull) borrower_G = Inr v \<and> v = JNull)"
proof -
  let ?chk = "\<lparr> chk_agent = borrower_G, chk_action = ''borrow'', chk_amount = Finite 500 \<rparr>"
  let ?c = "answering_client JNull (JStr ''high'')"
  let ?d = "answering_client JNull JNull"
  have off: "isl (simulateCall offline_client cid m args)" for cid m args
    by (simp add: offline_client_def)
  then have off': "simulateCall offline_client cid m args \<noteq> Inr v" for cid m args v
    by (metis sum.disc(2))
  have c: "simulateCall ?c (reputationManager (contracts ?c)) ''get_score'' [JStr borrower_G]
             \<noteq> Inr (JNum n)" for n
    by (simp add: answering_client_def)
  have d: "simulateCall ?d (agentManager (contracts ?d)) ''get_agent_info'' [JStr borrower_G]
             = Inr JNull"
    by (simp add: answering_client_def)
  from read_only_queries_never_fail [of offline_client ?chk 0 borrower_G] off off'
  have 1: "(\<exists>r. isAuthorized offline_client ?chk = Inr r \<and> \<not> authorized r)
     \<and> (\<exists>r. getScore offline_client 0 borrower_G = Inr r
          \<and> score r = Finite 50 \<and> tier_of r = tier_Basic)
     \<and> (\<exists>v. getInfo offline_client borrower_G = Inr v \<and> v = JNull)"
    by blast
  from read_only_queries_never_fail [of ?c ?chk 0 borrower_G] c
  have 2: "\<exists>r. getScore ?c 0 borrower_G = Inr r \<and> score r = Finite 50 \<and> tier_of r = tier_Basic"
    by blast
  from read_only_queries_never_fail [of ?d ?chk 0 borrower_G] d
  have 3: "\<exists>v. getInfo ?d borrower_G = Inr v \<and> v = JNull"
    by blast
  from 1 2 3 show ?thesis by blast
qed

text \<open>
  C8, as the code has it. No state-mutating method (\<open>register\<close>, \<open>revoke\<close>,
  \<open>updateScore\<close>) ever asks the client to submit a transaction. Called with
  \<open>signAndSend\<close> other than \<open>false\<close>, each makes no call to the client at all and throws
  a \<open>DACTPError\<close> that wraps the wallet error. Called with \<open>signAndSend: false\<close>, each asks
  for one transaction to be built; if it is built, the method returns success with the
  transaction's XDR as \<open>hash\<close>, and if building throws, the method throws a \<open>DACTPError\<close>
  that wraps the error.
\<close>

theorem mutating_methods_never_submit:
  "(\<forall>x \<in> set (fst (register c rp options) @ fst (revoke c vp options)
                @ fst (updateScore c up options)). \<not> is_SubmitTx x)
   \<and> (signAndSend options \<noteq> Some False \<longrightarrow>
       fst (register c rp options) = [] \<and> fst (revoke c vp options) = []
       \<and> fst (updateScore c up options) = []
       \<and> snd (register c rp options)
           = Inl (DACTPError (''Agent registration failed: '' @ wallet_message) CONTRACT_ERROR
                    (Some (DACTPError wallet_message WALLET_ERROR None)))
       \<and> snd (revoke c vp options)
           = Inl (DACTPError (''Agent revocation failed: '' @ wallet_message) CONTRACT_ERROR
                    (Some (DACTPError wallet_message WALLET_ERROR None)))
       \<and> snd (updateScore c up options)
           = Inl (DACTPError (''Reputation update failed: '' @ wallet_message) CONTRACT_ERROR
                    (Some (DACTPError wallet_message WALLET_ERROR None))))
   \<and> (signAndSend options = Some False \<longrightarrow>
       (case buildContractTx c (reg_owner rp) (agentManager (contracts c)) ''register_agent''
                  [JStr (reg_owner rp), JStr (reg_agent rp), JArr (map JStr (reg_scopes rp)),
                   JNum (reg_maxAmount rp)] of
             Inr tx \<Rightarrow> snd (register c rp options) = Inr \<lparr> hash = toXDR tx, success = True \<rparr>
           | Inl e \<Rightarrow> snd (register c rp options)
                       = Inl (DACTPError (''Agent registration failed: '' @ message e)
                                CONTRACT_ERROR (Some e)))
       \<and> (case buildContractTx c (rev_owner vp) (agentManager (contracts c)) ''revoke_agent''
                  [JStr (rev_owner vp), JStr (rev_agent vp)] of
             Inr tx \<Rightarrow> snd (revoke c vp options) = Inr \<lparr> hash = toXDR tx, success = True \<rparr>
           | Inl e \<Rightarrow> snd (revoke c vp options)
                       = Inl (DACTPError (''Agent revocation failed: '' @ message e)
                                CONTRACT_ERROR (Some e)))
       \<and> (case buildContractTx c (upd_caller up) (reputationManager (contracts c)) ''update_score''
                  [JStr (upd_caller up), JStr (upd_agent up), JNum (upd_delta up)] of
             Inr tx \<Rightarrow> snd (updateScore c up options) = Inr \<lparr> hash = toXDR tx, success = True \<rparr>
           | Inl e \<Rightarrow> snd (updateScore c up options)
                       = Inl (DACTPError (''Reputation update failed: '' @ message e)
                                CONTRACT_ERROR (Some e))))"
proof (intro conjI impI)
  show "\<forall>x \<in> set (fst (register c rp options) @ fst (revoke c vp options)
                @ fst (updateScore c up options)). \<not> is_SubmitTx x"
    by (simp add: register_def revoke_def updateScore_def Let_def)
next
  assume n: "signAndSend options \<noteq> Some False"
  from n show "fst (register c rp options) = []" by (simp add: register_def Let_def)
  from n show "fst (revoke c vp options) = []" by (simp add: revoke_def Let_def)
  from n show "fst (updateScore c up options) = []" by (simp add: updateScore_def Let_def)
  from n show "snd (register c rp options)
           = Inl (DACTPError (''Agent registration failed: '' @ wallet_message) CONTRACT_ERROR
                    (Some (DACTPError wallet_message WALLET_ERROR None)))"
    by (simp add: register_def Let_def)
  from n show "snd (revoke c vp options)
           = Inl (DACTPError (''Agent revocation failed: '' @ wallet_message) CONTRACT_ERROR
                    (Some (DACTPError wallet_message WALLET_ERROR None)))"
    by (simp add: revoke_def Let_def)
  from n show "snd (updateScore c up options)
           = Inl (DACTPError (''Reputation update failed: '' @ wallet_message) CONTRACT_ERROR
                    (Some (DACTPError wallet_message WALLET_ERROR None)))"
    by (simp add: updateScore_def Let_def)
next
  assume y: "signAndSend options = Some False"
  from y show "case buildContractTx c (reg_owner rp) (agentManager (contracts c)) ''register_agent''
                  [JStr (reg_owner rp), JStr (reg_agent rp), JArr (map JStr (reg_scopes rp)),
                   JNum (reg_maxAmount rp)] of
             Inr tx \<Rightarrow> snd (register c rp options) = Inr \<lparr> hash = toXDR tx, success = True \<rparr>
           | Inl e \<Rightarrow> snd (register c rp options)
                       = Inl (DACTPError (''Agent registration failed: '' @ message e)
                                CONTRACT_ERROR (Some e))"
    by (simp add: register_def Let_def split: sum.split)
  from y show "case buildContractTx c (rev_owner vp) (agentManager (contracts c)) ''revoke_agent''
                  [JStr (rev_owner vp), JStr (rev_agent vp)] of
             Inr tx \<Rightarrow> snd (revoke c vp options) = Inr \<lparr> hash = toXDR tx, success = True \<rparr>
           | Inl e \<Rightarrow> snd (revoke c vp options)
                       = Inl (DACTPError (''Agent revocation failed: '' @ message e)
                                CONTRACT_ERROR (Some e))"
    by (simp add: revoke_def Let_def split: sum.split)
  from y show "case buildContractTx c (upd_caller up) (reputationManager (contracts c)) ''update_score''
                  [JStr (upd_caller up), JStr (upd_agent up), JNum (upd_delta up)] of
             Inr tx \<Rightarrow> snd (updateScore c up options) = Inr \<lparr> hash = toXDR tx, success = True \<rparr>
           | Inl e \<Rightarrow> snd (updateScore c up options)
                       = Inl (DACTPError (''Reputation update failed: '' @ message e)
                                CONTRACT_ERROR (Some e))"
    by (simp add: updateScore_def Let_def split: sum.split)
qed


theorem mutating_methods_never_submit_witness:
  "snd (register (answering_client JNull JNull)
          \<lparr> reg_owner = borrower_G, reg_agent = agent_G, reg_scopes = [''borrow'', ''repay''],
            reg_maxAmount = Finite 1000 \<rparr>
          \<lparr> signAndSend = Some False, secretKey = None, fee = None \<rparr>)
     = Inr \<lparr> hash = ''AAAAAgAAAAA='', success = True \<rparr>
   \<and> snd (revoke (answering_client JNull JNull)
          \<lparr> rev_owner = borrower_G, rev_agent = agent_G \<rparr>
          \<lparr> signAndSend = None, secretKey = None, fee = None \<rparr>)
     = Inl (DACTPError (''Agent revocation failed: '' @ wallet_message) CONTRACT_ERROR
              (Some (DACTPError wallet_message WALLET_ERROR None)))
   \<and> fst (revoke (answering_client JNull JNull)
          \<lparr> rev_owner = borrower_G, rev_agent = agent_G \<rparr>
          \<lparr> signAndSend = None, secretKey = None, fee = None \<rparr>) = []"
proof -
  let ?c = "answering_client JNull JNull"
  let ?rp = "\<lparr> reg_owner = borrower_G, reg_agent = agent_G, reg_scopes = [''borrow'', ''repay''],
            reg_maxAmount = Finite 1000 \<rparr>"
  let ?vp = "\<lparr> rev_owner = borrower_G, rev_agent = agent_G \<rparr>"
  let ?up = "\<lparr> upd_caller = borrower_G, upd_agent = agent_G, upd_delta = Finite 8 \<rparr>"
  have b: "buildContractTx ?c pk cid m args = Inr \<lparr> toXDR = ''AAAAAgAAAAA='' \<rparr>" for pk cid m args
    by (simp add: answering_client_def)
  have "snd (register ?c ?rp \<lparr> signAndSend = Some False, secretKey = None, fee = None \<rparr>)
     = Inr \<lparr> hash = ''AAAAAgAAAAA='', success = True \<rparr>"
    using mutating_methods_never_submit
      [of ?c ?rp "\<lparr> signAndSend = Some False, secretKey = None, fee = None \<rparr>" ?vp ?up]
    by (simp add: b)
  moreover have "snd (revoke ?c ?vp \<lparr> signAndSend = None, secretKey = None, fee = None \<rparr>)
     = Inl (DACTPError (''Agent revocation failed: '' @ wallet_message) CONTRACT_ERROR
              (Some (DACTPError wallet_message WALLET_ERROR None)))
     \<and> fst (revoke ?c ?vp \<lparr> signAndSend = None, secretKey = None, fee = None \<rparr>) = []"
    using mutating_methods_never_submit
      [of ?c ?rp "\<lparr> signAndSend = None, secretKey = None, fee = None \<rparr>" ?vp ?up]
    by simp
  ultimately show ?thesis by blast
qed

text \<open>
  With \<open>signAndSend: false\<close> on a network that does not know the owner's account,
  \<open>register\<close> does not return a result: it throws.
\<close>

theorem register_unfunded_counterexample:
  "snd (register offline_client
          \<lparr> reg_owner = borrower_G, reg_agent = agent_G, reg_scopes = [''borrow'', ''repay''],
            reg_maxAmount = Finite 1000 \<rparr>
          \<lparr> signAndSend = Some False, secretKey = None, fee = None \<rparr>)
     = Inl (DACTPError
              (''Agent registration failed: Account not found: '' @ borrower_G
                 @ ''. Fund this account first.'')
              CONTRACT_ERROR
              (Some (DACTPError (''Account not found: '' @ borrower_G @ ''. Fund this account first.'')
                       WALLET_ERROR (Some (Error ''Account not found'')))))"
  by (simp add: register_def offline_client_def)

lemma processLoanRepayment_carries:
  "carries_delta c b (processLoanRepayment c b l early late) (repayment_delta early late)"
  by (simp add: carries_delta_def processLoanRepayment_def updateReputation_def updateScore_def
        Let_def split: sum.split)

text \<open>
  C4. \<open>processLoanRepayment\<close> selects the delta of \<open>EARLY_PAYMENT\<close> (12) when
  \<open>isEarlyPayment\<close>, otherwise that of \<open>LATE_PAYMENT\<close> (-5) when \<open>isLatePayment\<close>, and
  that of \<open>ON_TIME_PAYMENT\<close> (8) otherwise. With the flags set by the timing of the
  specification, a repayment at or before 12 hours ahead of the due date carries +12, one
  after that and up to the due date +8, and one after the due date and within the grace
  period -5.
\<close>

theorem repayment_timing_deltas:
  "carries_delta c b (processLoanRepayment c b l early late)
     (if early then REPUTATION_DELTAS EARLY_PAYMENT
      else if late then REPUTATION_DELTAS LATE_PAYMENT
      else REPUTATION_DELTAS ON_TIME_PAYMENT)
   \<and> (now \<le> due_at - twelve_hours \<longrightarrow>
        classify now due_at grace = Early
        \<and> carries_delta c b
            (processLoanRepayment c b l (classify now due_at grace = Early)
               (classify now due_at grace = Late)) (Finite 12))
   \<and> (due_at - twelve_hours < now \<and> now \<le> due_at \<longrightarrow>
        classify now due_at grace = OnTime
        \<and> carries_delta c b
            (processLoanRepayment c b l (classify now due_at grace = Early)
               (classify now due_at grace = Late)) (Finite 8))
   \<and> (due_at < now \<and> now \<le> due_at + grace \<longrightarrow>
        classify now due_at grace = Late
        \<and> carries_delta c b
            (processLoanRepayment c b l (classify now due_at grace = Early)
               (classify now due_at grace = Late)) (Finite (- 5)))"
proof (intro conjI impI)
  show "carries_delta c b (processLoanRepayment c b l early late)
     (if early then REPUTATION_DELTAS EARLY_PAYMENT
      else if late then REPUTATION_DELTAS LATE_PAYMENT
      else REPUTATION_DELTAS ON_TIME_PAYMENT)"
  proof -
    have "(if early then REPUTATION_DELTAS EARLY_PAYMENT
           else if late then REPUTATION_DELTAS LATE_PAYMENT
           else REPUTATION_DELTAS ON_TIME_PAYMENT) = repayment_delta early late"
      by (simp add: repayment_delta_def)
    then show ?thesis
      using processLoanRepayment_carries [of c b l early late] by (simp only:)
  qed
next
  assume "now \<le> due_at - twelve_hours"
  then show e: "classify now due_at grace = Early"
    by (simp add: classify_def)
  show "carries_delta c b
            (processLoanRepayment c b l (classify now due_at grace = Early)
               (classify now due_at grace = Late)) (Finite 12)"
    using processLoanRepayment_carries [of c b l True False]
    by (simp add: e repayment_delta_def)
next
  assume "due_at - twelve_hours < now \<and> now \<le> due_at"
  then show e: "classify now due_at grace = OnTime"
    by (simp add: classify_def)
  show "carries_delta c b
            (processLoanRepayment c b l (classify now due_at grace = Early)
               (classify now due_at grace = Late)) (Finite 8)"
    using processLoanRepayment_carries [of c b l False False]
    by (simp add: e repayment_delta_def)
next
  assume "due_at < now \<and> now \<le> due_at + grace"
  then show e: "classify now due_at grace = Late"
    by (simp add: classify_def twelve_hours_def)
  show "carries_delta c b
            (processLoanRepayment c b l (classify now due_at grace = Early)
               (classify now due_at grace = Late)) (Finite (- 5))"
    using processLoanRepayment_carries [of c b l False True]
    by (simp add: e repayment_delta_def)
qed

theorem repayment_timing_deltas_witness:
  "snd (processLoanRepayment (answering_client JNull JNull) borrower_G ''loan-1''
          (classify 1000 50000 86400 = Early) (classify 1000 50000 86400 = Late))
     = Inr \<lparr> repayment_success = True, reputationDelta = Finite 12 \<rparr>
   \<and> snd (processLoanRepayment (answering_client JNull JNull) borrower_G ''loan-1''
          (classify 50000 50000 86400 = Early) (classify 50000 50000 86400 = Late))
     = Inr \<lparr> repayment_success = True, reputationDelta = Finite 8 \<rparr>
   \<and> snd (processLoanRepayment (answering_client JNull JNull) borrower_G ''loan-1''
          (classify 50001 50000 86400 = Early) (classify 50001 50000 86400 = Late))
     = Inr \<lparr> repayment_success = True, reputationDelta = Finite (- 5) \<rparr>"
proof -
  let ?c = "answering_client JNull JNull"
  have b: "buildContractTx ?c pk cid m args = Inr \<lparr> toXDR = ''AAAAAgAAAAA='' \<rparr>" for pk cid m args
    by (simp add: answering_client_def)
  have 1: "(1000::int) \<le> 50000 - twelve_hours"
    by (simp add: twelve_hours_def)
  have 2: "(50000::int) - twelve_hours < 50000 \<and> (50000::int) \<le> 50000"
    by (simp add: twelve_hours_def)
  have 3: "(50000::int) < 50001 \<and> (50001::int) \<le> 50000 + 86400"
    by simp
  from repayment_timing_deltas [of ?c borrower_G "''loan-1''" True False 1000 50000 86400] 1
  have "carries_delta ?c borrower_G
            (processLoanRepayment ?c borrower_G ''loan-1'' (classify 1000 50000 86400 = Early)
               (classify 1000 50000 86400 = Late)) (Finite 12)"
    by blast
  then have r1: "snd (processLoanRepayment ?c borrower_G ''loan-1''
          (classify 1000 50000 86400 = Early) (classify 1000 50000 86400 = Late))
     = Inr \<lparr> repayment_success = True, reputationDelta = Finite 12 \<rparr>"
    by (simp add: carries_delta_def b)
  from repayment_timing_deltas [of ?c borrower_G "''loan-1''" True False 50000 50000 86400] 2
  have "carries_delta ?c borrower_G
            (processLoanRepayment ?c borrower_G ''loan-1'' (classify 50000 50000 86400 = Early)
               (classify 50000 50000 86400 = Late)) (Finite 8)"
    by blast
  then have r2: "snd (processLoanRepayment ?c borrower_G ''loan-1''
          (classify 50000 50000 86400 = Early) (classify 50000 50000 86400 = Late))
     = Inr \<lparr> repayment_success = True, reputationDelta = Finite 8 \<rparr>"
    by (simp add: carries_delta_def b)
  from repayment_timing_deltas [of ?c borrower_G "''loan-1''" True False 50001 50000 86400] 3
  have "carries_delta ?c borrower_G
            (processLoanRepayment ?c borrower_G ''loan-1'' (classify 50001 50000 86400 = Early)
               (classify 50001 50000 86400 = Late)) (Finite (- 5))"
    by blast
  then have r3: "snd (processLoanRepayment ?c borrower_G ''loan-1''
          (classify 50001 50000 86400 = Early) (classify 50001 50000 86400 = Late))
     = Inr \<lparr> repayment_success = True, reputationDelta = Finite (- 5) \<rparr>"
    by (simp add: carries_delta_def b)
  from r1 r2 r3 show ?thesis by blast
qed

text \<open>
  C5, as the code has it. \<open>processLoanDefault\<close> keeps no record of a loan and has no
  guard: every call asks for one unsigned \<open>update_score\<close> transaction that carries the
  delta of \<open>DEFAULT\<close>, -25, for the borrower, and returns normally whether or not the
  transaction was built. Two calls for the same loan carry the delta twice.
\<close>

theorem processLoanDefault_every_call:
  "fst (processLoanDefault c b l)
     = [BuildContractTx ''LENDING_PROTOCOL_ADDRESS'' (reputationManager (contracts c))
          ''update_score''
          [JStr ''LENDING_PROTOCOL_ADDRESS'', JStr b, JNum (REPUTATION_DELTAS DEFAULT)]]
   \<and> snd (processLoanDefault c b l) = Inr ()
   \<and> requested_deltas (fst (processLoanDefault c b l)) = [Finite (- 25)]
   \<and> requested_deltas (fst (processLoanDefault c b l) @ fst (processLoanDefault c' b l))
       = [Finite (- 25), Finite (- 25)]"
  by (simp add: processLoanDefault_def updateReputation_def updateScore_def Let_def
        split: sum.split)

theorem processLoanDefault_every_call_witness:
  "fst (processLoanDefault offline_client borrower_G ''loan-1'')
     = [BuildContractTx ''LENDING_PROTOCOL_ADDRESS''
          ''CDWF4BNN2GTUHDKRBPSUA7K6NTIS75YYVHBSFFFDGWPWU635GZY6PHEN'' ''update_score''
          [JStr ''LENDING_PROTOCOL_ADDRESS'', JStr borrower_G, JNum (Finite (- 25))]]
   \<and> snd (processLoanDefault offline_client borrower_G ''loan-1'') = Inr ()"
  using processLoanDefault_every_call [of offline_client borrower_G "''loan-1''" offline_client]
  by (simp add: offline_client_def futurenet_contracts_def)

text \<open>
  The second application for the same loan does not fail, and the delta is requested
  twice, not once.
\<close>

theorem processLoanDefault_twice_counterexample:
  "requested_deltas
     (fst (processLoanDefault (answering_client JNull JNull) borrower_G ''loan-1'')
      @ fst (processLoanDefault (answering_client JNull JNull) borrower_G ''loan-1''))
     = [Finite (- 25), Finite (- 25)]
   \<and> snd (processLoanDefault (answering_client JNull JNull) borrower_G ''loan-1'') = Inr ()"
  by (simp add: processLoanDefault_def updateReputation_def updateScore_def Let_def
        answering_client_def)

lemma isAuthorized_reason:
  assumes "isAuthorized c check = Inr auth" and "\<not> authorized auth"
  shows "\<exists>r. auth_reason auth = Some r \<and> r \<noteq> []"
  using assms by (auto simp add: isAuthorized_def split: sum.splits if_splits)

text \<open>
  C3, as the code has it. Whenever the score that \<open>getScore\<close> reports for the agent is
  below 60, \<open>processLoanRequest\<close> returns without throwing and does not approve the loan,
  for every amount. Authorization is checked first: if the agent is authorized, the reason
  is the insufficient-reputation message with the required 60 and the current score; if
  not, the reason is the one the authorization check gave.
\<close>

theorem loan_request_below_60:
  assumes "getScore c now a = Inr rep"
    and "num_lt (score rep) (Finite 60)"
    and "isAuthorized c \<lparr> chk_agent = a, chk_action = ''borrow'', chk_amount = amt \<rparr> = Inr auth"
  shows "\<exists>d. processLoanRequest str rate c now a amt dur = Inr d \<and> \<not> approved d
           \<and> loan_reason d =
               (if authorized auth
                then Some (''Insufficient reputation. Required: '' @ str (Finite 60)
                           @ '', Current: '' @ str (score rep))
                else auth_reason auth)"
proof (cases "authorized auth")
  case True
  with assms show ?thesis
    by (simp add: processLoanRequest_def processLoanRequest_try_def canPerformAction_def
          canPerformAction_try_def)
next
  case False
  with isAuthorized_reason [OF assms(3)] obtain r where r: "auth_reason auth = Some r" "r \<noteq> []"
    by blast
  with False assms show ?thesis
    by (simp add: processLoanRequest_def processLoanRequest_try_def canPerformAction_def
          canPerformAction_try_def)
qed

theorem loan_request_below_60_witness:
  "(\<exists>d. processLoanRequest natural_text (\<lambda>r. Finite 0)
           (answering_client (JBool True) (JNum (Finite 40))) 0 borrower_G (Finite 1) (Finite 30)
         = Inr d \<and> \<not> approved d
         \<and> loan_reason d = Some ''Insufficient reputation. Required: 60, Current: 40'')
   \<and> (\<exists>d. processLoanRequest natural_text (\<lambda>r. Finite 0)
           offline_client 0 borrower_G (Finite 1) (Finite 30)
         = Inr d \<and> \<not> approved d
         \<and> loan_reason d = Some ''Authorization check failed: Contract simulation failed'')"
proof -
  let ?c = "answering_client (JBool True) (JNum (Finite 40))"
  have t40: "getTier (Finite 40) = tier_NoCredit" and t50: "getTier (Finite 50) = tier_Basic"
    by (simp_all add: getTier_Finite)
  have g: "getScore ?c 0 borrower_G
             = Inr \<lparr> score = Finite 40, tier_of = tier_NoCredit, lastUpdated = 0 \<rparr>"
    by (simp add: getScore_def answering_client_def t40)
  have i: "isAuthorized ?c \<lparr> chk_agent = borrower_G, chk_action = ''borrow'', chk_amount = Finite 1 \<rparr>
             = Inr \<lparr> authorized = True, auth_reason = None \<rparr>"
    by (simp add: isAuthorized_def answering_client_def)
  have n: "natural_text (Finite 60) = ''60''" "natural_text (Finite 40) = ''40''"
    by (simp_all add: natural_text_def)
  have 1: "\<exists>d. processLoanRequest natural_text (\<lambda>r. Finite 0) ?c 0 borrower_G (Finite 1) (Finite 30)
         = Inr d \<and> \<not> approved d
         \<and> loan_reason d = Some ''Insufficient reputation. Required: 60, Current: 40''"
    using loan_request_below_60 [OF g _ i, of natural_text "\<lambda>r. Finite 0" "Finite 30"]
    by (simp add: n)
  have g': "getScore offline_client 0 borrower_G
             = Inr \<lparr> score = Finite 50, tier_of = tier_Basic, lastUpdated = 0 \<rparr>"
    by (simp add: getScore_def offline_client_def t50)
  have i': "isAuthorized offline_client
              \<lparr> chk_agent = borrower_G, chk_action = ''borrow'', chk_amount = Finite 1 \<rparr>
             = Inr \<lparr> authorized = False,
                     auth_reason = Some ''Authorization check failed: Contract simulation failed'' \<rparr>"
    by (simp add: isAuthorized_def offline_client_def)
  have 2: "\<exists>d. processLoanRequest natural_text (\<lambda>r. Finite 0) offline_client 0 borrower_G
                  (Finite 1) (Finite 30)
         = Inr d \<and> \<not> approved d
         \<and> loan_reason d = Some ''Authorization check failed: Contract simulation failed''"
    using loan_request_below_60 [OF g' _ i', of natural_text "\<lambda>r. Finite 0" "Finite 30"]
    by simp
  from 1 2 show ?thesis by blast
qed

text \<open>
  An agent with score 40 that is not authorized: the request fails with the authorization
  reason, not with insufficient reputation.
\<close>

theorem loan_request_unauthorized_counterexample:
  "processLoanRequest natural_text (\<lambda>r. Finite 0)
     (answering_client (JBool False) (JNum (Finite 40))) 0 borrower_G (Finite 1) (Finite 30)
     = Inr \<lparr> approved = False,
             loan_reason = Some ''Agent not authorized or amount exceeds limit'',
             loan_maxAllowed = None, interestRate = None \<rparr>
   \<and> getScore (answering_client (JBool False) (JNum (Finite 40))) 0 borrower_G
     = Inr \<lparr> score = Finite 40, tier_of = tier_NoCredit, lastUpdated = 0 \<rparr>"
proof -
  have t40: "getTier (Finite 40) = tier_NoCredit"
    by (simp add: getTier_Finite)
  show ?thesis
    by (simp add: processLoanRequest_def processLoanRequest_try_def canPerformAction_def
          canPerformAction_try_def isAuthorized_def getScore_def answering_client_def t40)
qed

lemma step_keeps_revoked:
  assumes "reg a = Some r" and "revoked r"
  shows "\<exists>r'. step reg op a = Some r' \<and> revoked r'"
proof (cases op)
  case (Register caller own agent scs mx)
  with assms show ?thesis
    by (auto simp add: step_def register_agent_def split: option.splits)
next
  case (Revoke caller own agent)
  with assms show ?thesis
    by (auto simp add: step_def revoke_agent_def split: option.splits)
next
  case Elsewhere
  with assms show ?thesis
    by (simp add: step_def)
qed

lemma run_keeps_revoked:
  assumes "reg a = Some r" and "revoked r"
  shows "\<exists>r'. run reg ops a = Some r' \<and> revoked r'"
  using assms
proof (induction ops arbitrary: reg r)
  case Nil
  then show ?case by (simp add: run_def)
next
  case (Cons op ops)
  from step_keeps_revoked [of reg a r op] Cons.prems obtain r1
    where "step reg op a = Some r1" and "revoked r1" by blast
  with Cons.IH [of "step reg op" r1] show ?case by (simp add: run_def)
qed

text \<open>
  C7. In the registry of the specification, once the record of an agent is revoked it
  stays revoked through every sequence of registry operations, whoever signs them and
  whether they succeed or abort, and \<open>is_authorized\<close> is false for the agent for every
  action and every amount after any such sequence.
\<close>

theorem revoked_forever:
  assumes "reg a = Some r" and "revoked r"
  shows "(\<exists>r'. run reg ops a = Some r' \<and> revoked r')
         \<and> \<not> is_authorized (run reg ops) a action amount"
proof -
  from run_keeps_revoked [of reg a r ops] assms obtain r' where "run reg ops a = Some r'" and "revoked r'"
    by blast
  then show ?thesis by (simp add: is_authorized_def)
qed

theorem revoked_forever_witness:
  "is_authorized demo_registry ''agent'' ''borrow'' 900
   \<and> \<not> is_authorized demo_registry ''agent'' ''trade'' 1
   \<and> \<not> is_authorized demo_registry ''agent'' ''borrow'' 1001
   \<and> (\<exists>r. step demo_registry (Revoke ''owner'' ''owner'' ''agent'') ''agent'' = Some r \<and> revoked r)
   \<and> \<not> is_authorized
         (run (step demo_registry (Revoke ''owner'' ''owner'' ''agent''))
            [Register ''owner'' ''owner'' ''agent'' {''borrow'', ''repay''} 5000,
             Register ''intruder'' ''intruder'' ''agent'' {''borrow''} 5000,
             Elsewhere, Revoke ''owner'' ''owner'' ''agent''])
         ''agent'' ''borrow'' 900"
proof -
  have d: "demo_registry ''agent''
            = Some \<lparr> owner = ''owner'', scopes = {''borrow'', ''repay''}, max_amount = 1000,
                     revoked = False \<rparr>"
    by (simp add: demo_registry_def run_def step_def register_agent_def)
  have a: "is_authorized demo_registry ''agent'' ''borrow'' 900
   \<and> \<not> is_authorized demo_registry ''agent'' ''trade'' 1
   \<and> \<not> is_authorized demo_registry ''agent'' ''borrow'' 1001"
    by (simp add: is_authorized_def d)
  have s: "step demo_registry (Revoke ''owner'' ''owner'' ''agent'') ''agent''
            = Some \<lparr> owner = ''owner'', scopes = {''borrow'', ''repay''}, max_amount = 1000,
                     revoked = True \<rparr>"
    by (simp add: step_def revoke_agent_def d)
  have "revoked \<lparr> owner = ''owner'', scopes = {''borrow'', ''repay''}, max_amount = 1000,
                     revoked = True \<rparr>"
    by simp
  with revoked_forever
      [of "step demo_registry (Revoke ''owner'' ''owner'' ''agent'')" "''agent''"
          "\<lparr> owner = ''owner'', scopes = {''borrow'', ''repay''}, max_amount = 1000,
             revoked = True \<rparr>"
          "[Register ''owner'' ''owner'' ''agent'' {''borrow'', ''repay''} 5000,
            Register ''intruder'' ''intruder'' ''agent'' {''borrow''} 5000,
            Elsewhere, Revoke ''owner'' ''owner'' ''agent'']" "''borrow''" 900]
    a s show ?thesis by simp
qed

end
